theory Spec2Isabelle
  imports Main "HOL-Library.Sublist"
begin

section \<open>Text\<close>

text \<open>
  Text is modelled as \<^typ>\<open>string\<close>, the list of the bytes of its UTF-8 encoding. ASCII
  text is one byte per character; the few characters beyond ASCII that the program's
  fixed messages hold (the warning sign, the light bulb, the pin) are written as
  their bytes. Case folding is the ASCII one: Python's \<open>str.lower\<close> and SQLite's
  \<open>LIKE\<close> agree with it on ASCII letters, and Python's folding of letters beyond ASCII
  is outside the model.
\<close>

definition lower_char :: "char \<Rightarrow> char" where
  "lower_char c =
     (case map_of (zip ''ABCDEFGHIJKLMNOPQRSTUVWXYZ'' ''abcdefghijklmnopqrstuvwxyz'') c of
        None \<Rightarrow> c
      | Some l \<Rightarrow> l)"

text \<open>Python: \<open>s.lower()\<close>.\<close>

definition lower :: "string \<Rightarrow> string" where
  "lower s = map lower_char s"

text \<open>Python: \<open>s.startswith(p)\<close>, the test the substring search makes at each position.\<close>

fun starts_with :: "string \<Rightarrow> string \<Rightarrow> bool" where
  "starts_with [] s = True"
| "starts_with (p # ps) [] = False"
| "starts_with (p # ps) (c # cs) = (p = c \<and> starts_with ps cs)"

text \<open>Python: \<open>needle in hay\<close> on strings.\<close>

fun py_in :: "string \<Rightarrow> string \<Rightarrow> bool" where
  "py_in needle [] = (needle = [])"
| "py_in needle (c # cs) = (starts_with needle (c # cs) \<or> py_in needle cs)"

text \<open>Python: \<open>sep.join(parts)\<close>.\<close>

fun join :: "string \<Rightarrow> string list \<Rightarrow> string" where
  "join sep [] = []"
| "join sep [x] = x"
| "join sep (x # y # ys) = x @ sep @ join sep (y # ys)"

section \<open>Knowledge base\<close>

text \<open>
  \<open>knowledge_base\<close> is a dict literal of eight topics; a Python dict iterates in
  insertion order, so it is an association list in the order of the source.
\<close>

record topic =
  info :: string
  keywords' :: "string list"

definition knowledge_base :: "(string \<times> topic) list" where
  "knowledge_base =
    [(''financing'',
      \<lparr>info = ''We offer flexible financing options with 20-30% down payment and up to 5 years installment plans. Interest rates start from 12% per annum.'',
       keywords' = [''finance'', ''loan'', ''installment'', ''payment plan'', ''emi'', ''down payment'']\<rparr>),
     (''warranty'',
      \<lparr>info = ''All our cars come with a 3-month dealer warranty covering engine and transmission. Extended warranty packages available for up to 2 years.'',
       keywords' = [''warranty'', ''guarantee'', ''coverage'', ''protection'']\<rparr>),
     (''exchange'',
      \<lparr>info = ''We accept car exchange! Bring your old car and we'll evaluate it for the best exchange value. We handle all documentation.'',
       keywords' = [''exchange'', ''trade-in'', ''old car'', ''swap'']\<rparr>),
     (''service'',
      \<lparr>info = ''Our service center offers: Regular maintenance, Oil changes, Brake services, AC repair, Engine diagnostics, Body work and painting.'',
       keywords' = [''service'', ''maintenance'', ''repair'', ''fix'', ''mechanic'']\<rparr>),
     (''inspection'',
      \<lparr>info = ''Free pre-purchase inspection available for all cars. Our certified technicians check 150+ points before delivery.'',
       keywords' = [''inspection'', ''check'', ''evaluate'', ''condition'']\<rparr>),
     (''delivery'',
      \<lparr>info = ''Free home delivery within city limits. For outstation delivery, charges apply based on distance.'',
       keywords' = [''delivery'', ''shipping'', ''transport'']\<rparr>),
     (''documentation'',
      \<lparr>info = ''We handle all documentation including: Registration transfer, Token tax, Insurance, Number plate transfer. Processing time: 7-14 days.'',
       keywords' = [''documents'', ''registration'', ''transfer'', ''paperwork'', ''token tax'']\<rparr>),
     (''operating_hours'',
      \<lparr>info = ''We're open Monday to Saturday: 10:00 AM - 8:00 PM, Sunday: 11:00 AM - 6:00 PM. 24/7 support available via phone.'',
       keywords' = [''hours'', ''timing'', ''open'', ''close'', ''schedule'']\<rparr>)]"

text \<open>Python: \<open>knowledge_base.values()\<close>.\<close>

definition kb_values :: "topic list" where
  "kb_values = map snd knowledge_base"

text \<open>
  The inner loop of \<open>search_knowledge_base\<close>: the first keyword found in the lowered
  query appends the topic's info to \<open>matches\<close> and breaks.
\<close>

fun keyword_loop :: "string list \<Rightarrow> string \<Rightarrow> string \<Rightarrow> string list \<Rightarrow> string list" where
  "keyword_loop [] q txt matches = matches"
| "keyword_loop (k # ks) q txt matches =
     (if py_in k q then matches @ [txt] else keyword_loop ks q txt matches)"

text \<open>The outer loop, over the topics, threading \<open>matches\<close>.\<close>

fun topic_loop :: "topic list \<Rightarrow> string \<Rightarrow> string list \<Rightarrow> string list" where
  "topic_loop [] q matches = matches"
| "topic_loop (d # ds) q matches =
     topic_loop ds q (keyword_loop (keywords' d) q (info d) matches)"

definition search_knowledge_base :: "string \<Rightarrow> string list" where
  "search_knowledge_base query = topic_loop kb_values (lower query) []"


section \<open>The store\<close>

text \<open>
  The SQLite file holds five tables. A table is the list of its rows in rowid order,
  which is insertion order: every table has an \<open>INTEGER PRIMARY KEY AUTOINCREMENT\<close>
  and no row is ever deleted or updated. The \<open>created_at\<close> column (the engine's clock)
  is left out, and so are failures of the engine itself: a statement on the store
  always succeeds. Columns hold values of their declared type (no \<open>NULL\<close>, text in the
  text columns); \<open>price\<close> is a whole number of rupees, as in every seeded row.
\<close>

record message_row =
  message_id :: nat
  session_id :: string
  role :: string
  text' :: string

record lead_row =
  lead_id :: nat
  lead_name :: string
  lead_phone :: string
  lead_email :: string
  lead_interested_in :: string
  lead_budget :: string
  lead_status :: string
  lead_notes :: string

record car =
  car_id :: nat
  make' :: string
  model :: string
  year :: int
  price :: int
  mileage :: string
  fuel_type :: string
  transmission :: string
  features :: string
  status :: string

record test_drive_row =
  td_id :: nat
  td_customer_name :: string
  td_phone :: string
  td_email :: string
  td_car_model :: string
  td_preferred_date :: string
  td_preferred_time :: string
  td_status :: string

record service_request_row =
  sr_id :: nat
  sr_customer_name :: string
  sr_phone :: string
  sr_car_model :: string
  sr_service_type :: string
  sr_description :: string
  sr_status :: string

record database =
  messages :: "message_row list"
  leads :: "lead_row list"
  cars :: "car list"
  test_drives :: "test_drive_row list"
  service_requests :: "service_request_row list"

text \<open>
  The key an \<open>AUTOINCREMENT\<close> column gives a new row: one more than the largest key
  of the table (1 for the empty table).
\<close>

definition next_id :: "nat list \<Rightarrow> nat" where
  "next_id ids = Suc (fold max ids 0)"

text \<open>\<open>init_db\<close>: the five sample cars, inserted when the \<open>cars\<close> table is empty.\<close>

definition sample_cars :: "(string \<times> string \<times> int \<times> int \<times> string \<times> string \<times> string \<times> string \<times> string) list" where
  "sample_cars =
    [(''Toyota'', ''Corolla'', 2020, 3500000, ''45,000 km'', ''Petrol'', ''Automatic'',
      ''ABS, Airbags, Power Steering, AC, Alloy Rims'', ''available''),
     (''Honda'', ''Civic'', 2019, 3200000, ''52,000 km'', ''Petrol'', ''CVT'',
      ''Cruise Control, Sunroof, Leather Seats, Navigation'', ''available''),
     (''Suzuki'', ''Alto'', 2021, 1800000, ''25,000 km'', ''Petrol'', ''Manual'',
      ''AC, Power Windows, Central Lock'', ''available''),
     (''Honda'', ''City'', 2020, 2800000, ''38,000 km'', ''Petrol'', ''Automatic'',
      ''ABS, Airbags, Alloy Rims, Multimedia'', ''available''),
     (''Toyota'', ''Yaris'', 2022, 3900000, ''15,000 km'', ''Petrol'', ''CVT'',
      ''Smart Entry, Push Start, Reverse Camera'', ''available'')]"

fun insert_car ::
  "car list \<Rightarrow> string \<times> string \<times> int \<times> int \<times> string \<times> string \<times> string \<times> string \<times> string \<Rightarrow> car list" where
  "insert_car rows (mk, md, y, p, mi, fu, tr, fe, st) =
     rows @ [\<lparr>car_id = next_id (map car_id rows), make' = mk, model = md, year = y, price = p,
              mileage = mi, fuel_type = fu, transmission = tr, features = fe, status = st\<rparr>]"

definition init_db :: "database \<Rightarrow> database" where
  "init_db db =
     (if length (cars db) = 0 then db\<lparr>cars := fold (\<lambda>r rows. insert_car rows r) sample_cars (cars db)\<rparr>
      else db)"

definition empty_db :: database where
  "empty_db = \<lparr>messages = [], leads = [], cars = [], test_drives = [], service_requests = []\<rparr>"

section \<open>Inventory queries\<close>

text \<open>
  SQLite's \<open>LIKE\<close> in its default configuration (no \<open>ESCAPE\<close>, ASCII case folding):
  \<open>%\<close> in the pattern matches any run of characters, \<open>_\<close> matches one character, and
  any other byte matches itself up to ASCII case. The engine steps over one UTF-8
  character at a time: a lead byte (\<open>0xC0\<close> and above) with the continuation bytes
  (\<open>0x80\<close> to \<open>0xBF\<close>) that follow it. Text is free of NUL bytes and patterns stay below the
  engine's length limit.
\<close>

definition is_continuation :: "char \<Rightarrow> bool" where
  "is_continuation c = (128 \<le> (of_char c :: nat) \<and> (of_char c :: nat) < 192)"

fun skip_utf8 :: "string \<Rightarrow> string" where
  "skip_utf8 [] = []"
| "skip_utf8 (c # cs) = (if 192 \<le> (of_char c :: nat) then dropWhile is_continuation cs else cs)"

function sqlite_like :: "string \<Rightarrow> string \<Rightarrow> bool" where
  "sqlite_like [] s = (s = [])"
| "sqlite_like (p # ps) [] = (if p = CHR ''%'' then sqlite_like ps [] else False)"
| "sqlite_like (p # ps) (c # cs) =
     (if p = CHR ''%'' then
        (if sqlite_like ps (c # cs) then True else sqlite_like (p # ps) (skip_utf8 (c # cs)))
      else if p = CHR ''_'' then sqlite_like ps (skip_utf8 (c # cs))
      else if lower_char p = lower_char c then sqlite_like ps cs
      else False)"
  by pat_completeness auto
termination
  by (relation "measure (\<lambda>(p, s). length p + length s)")
    (auto simp: less_Suc_eq_le length_dropWhile_le le_SucI)

text \<open>
  \<open>search_cars\<close> (both files, and the first query of the backend's \<open>chat\<close>):
  \<open>SELECT * FROM cars WHERE status = 'available' AND (make LIKE ? OR model LIKE ? OR
  features LIKE ?)\<close> with the pattern \<open>%query%\<close> bound three times. The comparison of
  \<open>status\<close> is the exact one of the \<open>BINARY\<close> collation; rows come in rowid order.
\<close>

definition search_cars :: "database \<Rightarrow> string \<Rightarrow> car list" where
  "search_cars db query =
     (let q = ''%'' @ query @ ''%''
      in filter (\<lambda>c. status c = ''available'' \<and>
                      (sqlite_like q (make' c) \<or> sqlite_like q (model c) \<or> sqlite_like q (features c)))
           (cars db))"

text \<open>
  \<open>ORDER BY year DESC\<close>. SQLite hands rows with equal keys on in the order it scanned
  them (the sorter merges stably, and with a \<open>LIMIT\<close> it keys its index on the key and
  a sequence number), and it scans \<open>cars\<close> in rowid order; so the sort is the stable
  insertion sort on the negated year.
\<close>

definition order_by_year_desc :: "car list \<Rightarrow> car list" where
  "order_by_year_desc rows = sort_key (\<lambda>c. - year c) rows"

text \<open>\<open>get_all_cars\<close>: \<open>SELECT * FROM cars WHERE status = 'available' ORDER BY year DESC\<close>.\<close>

definition get_all_cars :: "database \<Rightarrow> car list" where
  "get_all_cars db = order_by_year_desc (filter (\<lambda>c. status c = ''available'') (cars db))"

text \<open>
  The inventory snapshot: the backend's \<open>chat\<close> adds \<open>LIMIT 10\<close> to that query, the
  frontend's \<open>ask_gemini\<close> slices \<open>get_all_cars()\<close> with \<open>cars[:10]\<close>.
\<close>

definition snapshot :: "database \<Rightarrow> nat \<Rightarrow> car list" where
  "snapshot db limit = take limit (get_all_cars db)"


section \<open>Writes\<close>



text \<open>
  Python: \<open>(x or "")\<close> for an optional text \<open>x\<close>: the empty text for \<open>None\<close> (and
  for the empty text, which is falsy too), else \<open>x\<close>.
\<close>

definition or_empty :: "string option \<Rightarrow> string" where
  "or_empty x = (case x of None \<Rightarrow> [] | Some s \<Rightarrow> s)"

text \<open>
  \<open>save_message\<close> (the backend's \<open>POST /messages/save\<close> and the frontend's function
  of the same name run the same \<open>INSERT\<close>): the three values are bound as they come.
\<close>

definition save_message :: "database \<Rightarrow> string \<Rightarrow> string \<Rightarrow> string \<Rightarrow> database" where
  "save_message db sid rl txt =
     db\<lparr>messages := messages db @
       [\<lparr>message_id = next_id (map message_id (messages db)),
         session_id = sid, role = rl, text' = txt\<rparr>]\<rparr>"








section \<open>Formatting\<close>

text \<open>
  The three characters beyond ASCII of the fixed texts, as their UTF-8 bytes: the
  warning sign with its variation selector (U+26A0 U+FE0F), the light bulb (U+1F4A1)
  and the pushpin (U+1F4CC).
\<close>

definition warning_sign :: string where
  "warning_sign = [CHR 0xE2, CHR 0x9A, CHR 0xA0, CHR 0xEF, CHR 0xB8, CHR 0x8F]"

definition light_bulb :: string where
  "light_bulb = [CHR 0xF0, CHR 0x9F, CHR 0x92, CHR 0xA1]"

definition pushpin :: string where
  "pushpin = [CHR 0xF0, CHR 0x9F, CHR 0x93, CHR 0x8C]"

text \<open>Python: \<open>str(n)\<close> for a natural number, the decimal digits.\<close>

fun nat_digits :: "nat \<Rightarrow> string" where
  "nat_digits n =
     (if n < 10 then [''0123456789'' ! n]
      else nat_digits (n div 10) @ [''0123456789'' ! (n mod 10)])"

declare nat_digits.simps [simp del]

text \<open>Python: \<open>f"{i}"\<close> for an integer.\<close>

definition str_int :: "int \<Rightarrow> string" where
  "str_int i = (if i < 0 then ''-'' @ nat_digits (nat (- i)) else nat_digits (nat i))"

text \<open>The grouping of the format \<open>,\<close>: a comma before every block of three digits.\<close>

function group_thousands :: "string \<Rightarrow> string" where
  "group_thousands ds =
     (if length ds \<le> 3 then ds
      else group_thousands (take (length ds - 3) ds) @ '','' @ drop (length ds - 3) ds)"
  by pat_completeness auto
termination
  by (relation "measure length") auto

declare group_thousands.simps [simp del]

text \<open>Python: \<open>f"{price:,.0f}"\<close> on a whole number.\<close>

definition format_price :: "int \<Rightarrow> string" where
  "format_price p = (if p < 0 then ''-'' else []) @ group_thousands (nat_digits (nat \<bar>p\<bar>))"

text \<open>A line of the inventory list (the same text in both files).\<close>

definition inventory_line :: "car \<Rightarrow> string" where
  "inventory_line c =
     ''- '' @
     make' c @
     '' '' @
     model c @
     '' '' @
     str_int (year c) @
     '' (PKR '' @
     format_price (price c) @
     '')''"

text \<open>The description of a matching car (the same text in both files).\<close>

definition car_detail :: "car \<Rightarrow> string" where
  "car_detail c =
     pushpin @
     '' '' @
     make' c @
     '' '' @
     model c @
     '' '' @
     str_int (year c) @
     '' - PKR '' @
     format_price (price c) @
     ''\<newline>'' @
     ''   Mileage: '' @
     mileage c @
     '' | Fuel: '' @
     fuel_type c @
     '' | Transmission: '' @
     transmission c @
     ''\<newline>'' @
     ''   Features: '' @
     features c"

text \<open>Python: \<open>xs[-n:]\<close> for a positive \<open>n\<close>, the last \<open>n\<close> elements (all when there are fewer).\<close>

definition py_last :: "nat \<Rightarrow> 'a list \<Rightarrow> 'a list" where
  "py_last n xs = drop (length xs - n) xs"

section \<open>The generation API\<close>

text \<open>
  A parsed JSON value, as \<open>res.json()\<close> returns it. A dict is an association list read
  with \<open>map_of\<close>; a number is an integer (the code only tests a number for being zero).
\<close>

datatype json =
    JNull
  | JBool bool
  | JNum int
  | JStr string
  | JArr "json list"
  | JObj "(string \<times> json) list"

text \<open>Python's truth value of an object.\<close>

fun truthy :: "json \<Rightarrow> bool" where
  "truthy JNull = False"
| "truthy (JBool b) = b"
| "truthy (JNum n) = (n \<noteq> 0)"
| "truthy (JStr s) = (s \<noteq> [])"
| "truthy (JArr xs) = (xs \<noteq> [])"
| "truthy (JObj kvs) = (kvs \<noteq> [])"

fun type_name :: "json \<Rightarrow> string" where
  "type_name JNull = ''NoneType''"
| "type_name (JBool b) = ''bool''"
| "type_name (JNum n) = ''int''"
| "type_name (JStr s) = ''str''"
| "type_name (JArr xs) = ''list''"
| "type_name (JObj kvs) = ''dict''"

text \<open>
  The exceptions the two callers can meet: those Python raises on a value of the wrong
  shape, and those of the \<open>requests\<close> library (connection failure, timeout, retries
  used up, an error status, a body that is not JSON), which carry the library's message.
\<close>

datatype py_exception =
    AttributeError string string
  | TypeError string
  | KeyError string
  | IndexError string
  | RequestError string

text \<open>Python: \<open>str(e)\<close>.\<close>

fun str_exception :: "py_exception \<Rightarrow> string" where
  "str_exception (AttributeError ty attr) =
     [CHR 0x27] @ ty @ [CHR 0x27] @ '' object has no attribute '' @ [CHR 0x27] @ attr @ [CHR 0x27]"
| "str_exception (TypeError ty) = [CHR 0x27] @ ty @ [CHR 0x27] @ '' object is not subscriptable''"
| "str_exception (KeyError k) = k"
| "str_exception (IndexError m) = m"
| "str_exception (RequestError m) = m"

text \<open>
  What the HTTP call comes back with: an exception of the library, by its message, or
  a response. Of a response the callers read the status code (through
  \<open>raise_for_status\<close>, whose error message \<open>status_error\<close> stands for) and the parsed body
  (\<open>Inl\<close>: the body is not JSON, with the decoder's message).
\<close>

record http_response =
  status_code :: nat
  status_error :: string
  json_body :: "string + json"

datatype http_result =
    Raises string
  | Responds http_response

text \<open>\<open>res.raise_for_status()\<close>: an error for the 4xx and 5xx codes.\<close>

definition raise_for_status :: "http_response \<Rightarrow> py_exception + unit" where
  "raise_for_status res =
     (if 400 \<le> status_code res \<and> status_code res < 600 then Inl (RequestError (status_error res))
      else Inr ())"

text \<open>\<open>res.json()\<close>.\<close>

definition res_json :: "http_response \<Rightarrow> py_exception + json" where
  "res_json res = (case json_body res of Inl m \<Rightarrow> Inl (RequestError m) | Inr body \<Rightarrow> Inr body)"

text \<open>Python: \<open>v.get(key, default)\<close>; only a dict has the method.\<close>

fun py_get :: "json \<Rightarrow> string \<Rightarrow> json \<Rightarrow> py_exception + json" where
  "py_get (JObj kvs) key dflt = Inr (case map_of kvs key of None \<Rightarrow> dflt | Some v \<Rightarrow> v)"
| "py_get v key dflt = Inl (AttributeError (type_name v) ''get'')"

text \<open>Python: \<open>v or w\<close>.\<close>

definition py_or :: "json \<Rightarrow> json \<Rightarrow> json" where
  "py_or v w = (if truthy v then v else w)"

text \<open>
  Python: \<open>v[0]\<close>. The keys of a parsed JSON object are strings, so the key \<open>0\<close> is
  never present.
\<close>

fun index0 :: "json \<Rightarrow> py_exception + json" where
  "index0 (JArr (x # xs)) = Inr x"
| "index0 (JArr []) = Inl (IndexError ''list index out of range'')"
| "index0 (JStr (c # cs)) = Inr (JStr [c])"
| "index0 (JStr []) = Inl (IndexError ''string index out of range'')"
| "index0 (JObj kvs) = Inl (KeyError ''0'')"
| "index0 v = Inl (TypeError (type_name v))"

subsection \<open>The backend's call\<close>

definition not_configured_message :: string where
  "not_configured_message =
     warning_sign @
     '' AI service not configured. Please contact support at 0300-1234567.''"

definition no_response_message :: string where
  "no_response_message =
     warning_sign @
     '' Sorry, I couldn't generate a response. Please try again or call '' @
     ''0300-1234567.''"

definition trouble_message :: string where
  "trouble_message =
     warning_sign @
     '' I'm having trouble right now. Please try again or call us at: '' @
     ''0300-1234567''"

definition suggestion_line :: string where
  "suggestion_line =
     ''\<newline>'' @
     ''\<newline>'' @
     light_bulb @
     '' _Use the forms in the sidebar to book or save your details!_''"

definition action_words :: "string list" where
  "action_words = [''interested'', ''would you like'', ''book'', ''schedule'', ''test drive'']"

text \<open>
  Lines 368 to 376 of \<open>chat\<close>, "safely extract response text": the value left in
  \<open>response_text\<close>, or the exception a \<open>.get\<close> on a value that is no dict raises.
\<close>

definition extract_response_text :: "json \<Rightarrow> py_exception + json" where
  "extract_response_text body =
     (case py_get body ''candidates'' JNull of
        Inl e \<Rightarrow> Inl e
      | Inr c0 \<Rightarrow>
          (case py_or c0 (JArr []) of
             JArr (candidate # rest) \<Rightarrow>
               (case py_get candidate ''content'' JNull of
                  Inl e \<Rightarrow> Inl e
                | Inr ct \<Rightarrow>
                    (case py_get (py_or ct (JObj [])) ''parts'' JNull of
                       Inl e \<Rightarrow> Inl e
                     | Inr p0 \<Rightarrow>
                         (case py_or p0 (JArr []) of
                            JArr (part # rest_parts) \<Rightarrow> py_get part ''text'' (JStr [])
                          | other_parts \<Rightarrow> Inr (JStr []))))
           | other \<Rightarrow> Inr (JStr [])))"

text \<open>
  The body of the inner \<open>try\<close>: the call, the status check, the parsing, the extraction
  and the replacement of a falsy \<open>response_text\<close> by the fixed text.
\<close>

definition try_gemini :: "http_result \<Rightarrow> py_exception + json" where
  "try_gemini r =
     (case r of
        Raises m \<Rightarrow> Inl (RequestError m)
      | Responds res \<Rightarrow>
          (case raise_for_status res of
             Inl e \<Rightarrow> Inl e
           | Inr u \<Rightarrow>
               (case res_json res of
                  Inl e \<Rightarrow> Inl e
                | Inr body \<Rightarrow>
                    (case extract_response_text body of
                       Inl e \<Rightarrow> Inl e
                     | Inr response_text \<Rightarrow>
                         Inr (if \<not> truthy response_text then JStr no_response_message
                              else response_text)))))"

text \<open>The inner \<open>try\<close> with its \<open>except Exception\<close>.\<close>

definition gemini_response_text :: "http_result \<Rightarrow> json" where
  "gemini_response_text r = (case try_gemini r of Inl e \<Rightarrow> JStr trouble_message | Inr v \<Rightarrow> v)"

text \<open>
  Lines 385 and 386, "suggest action if intent present": \<open>response_text.lower()\<close> exists
  for a string only.
\<close>

definition suggest_action :: "json \<Rightarrow> py_exception + string" where
  "suggest_action response_text =
     (case response_text of
        JStr s \<Rightarrow>
          Inr (if list_ex (\<lambda>word. py_in word (lower s)) action_words then s @ suggestion_line
               else s)
      | v \<Rightarrow> Inl (AttributeError (type_name v) ''lower''))"

subsection \<open>The frontend's call\<close>

definition frontend_not_configured_message :: string where
  "frontend_not_configured_message =
     warning_sign @
     '' AI key not configured in frontend. Please configure GEMINI_API_KEY '' @
     ''in .env or Streamlit secrets.''"

definition frontend_tip_line :: string where
  "frontend_tip_line =
     ''\<newline>'' @
     ''\<newline>'' @
     light_bulb @
     '' _Tip: Use the forms in the sidebar to book a test drive or save your '' @
     ''details!_''"

definition frontend_action_words :: "string list" where
  "frontend_action_words = [''interested'', ''would you like'', ''shall i'', ''book'', ''schedule'']"

definition parse_failure_message :: string where
  "parse_failure_message =
     warning_sign @
     '' Couldn't parse AI response.''"

definition frontend_trouble_message :: string where
  "frontend_trouble_message =
     warning_sign @
     '' I'm having trouble connecting right now. Please try again or call us '' @
     ''at: 0300-1234567\<newline>'' @
     ''\<newline>'' @
     ''Error: ''"

text \<open>The body of the \<open>try\<close> of \<open>ask_gemini\<close>.\<close>

definition try_ask_gemini :: "http_result \<Rightarrow> py_exception + string" where
  "try_ask_gemini r =
     (case r of
        Raises m \<Rightarrow> Inl (RequestError m)
      | Responds res \<Rightarrow>
          (case raise_for_status res of
             Inl e \<Rightarrow> Inl e
           | Inr u \<Rightarrow>
               (case res_json res of
                  Inl e \<Rightarrow> Inl e
                | Inr body \<Rightarrow>
                    (case py_get body ''candidates'' JNull of
                       Inl e \<Rightarrow> Inl e
                     | Inr c0 \<Rightarrow>
                         (let candidates = py_or c0 (JArr [])
                          in if truthy candidates then
                               (case index0 candidates of
                                  Inl e \<Rightarrow> Inl e
                                | Inr candidate \<Rightarrow>
                                    (case py_get candidate ''content'' (JObj []) of
                                       Inl e \<Rightarrow> Inl e
                                     | Inr content \<Rightarrow>
                                         (case py_get content ''parts'' (JArr []) of
                                            Inl e \<Rightarrow> Inl e
                                          | Inr parts \<Rightarrow>
                                              if truthy parts then
                                                (case index0 parts of
                                                   Inl e \<Rightarrow> Inl e
                                                 | Inr part \<Rightarrow>
                                                     (case py_get part ''text'' (JStr []) of
                                                        Inl e \<Rightarrow> Inl e
                                                      | Inr (JStr s) \<Rightarrow>
                                                          Inr (if list_ex (\<lambda>word. py_in word (lower s))
                                                                    frontend_action_words
                                                               then s @ frontend_tip_line else s)
                                                      | Inr v \<Rightarrow>
                                                          Inl (AttributeError (type_name v) ''lower'')))
                                              else Inr parse_failure_message)))
                             else Inr parse_failure_message)))))"

section \<open>Prompt assembly\<close>

text \<open>\<open>kb_info\<close>: every topic's info text, one per line, whatever the query.\<close>

definition kb_info :: string where
  "kb_info = join ''\<newline>'' (map (\<lambda>data. ''- '' @ info data) kb_values)"

text \<open>
  \<open>additional_context\<close>: the two optional blocks. \<open>car_details\<close> is the empty text in the
  backend, and \<open>None\<close> in the frontend, when no car matches; both are falsy.
\<close>

definition additional_context :: "string list \<Rightarrow> string \<Rightarrow> string" where
  "additional_context kb_matches car_details =
     (if kb_matches \<noteq> [] then ''\<newline>'' @
     ''\<newline>'' @
     ''RELEVANT INFORMATION:\<newline>'' @ join ''\<newline>'' kb_matches else []) @
     (if car_details \<noteq> [] then ''\<newline>'' @
     ''\<newline>'' @
     ''MATCHING CARS:\<newline>'' @ car_details else [])"

text \<open>The details of the first three matching cars.\<close>

definition car_details_text :: "car list \<Rightarrow> string" where
  "car_details_text matching = join ''\<newline>\<newline>'' (map car_detail (take 3 matching))"

subsection \<open>The backend's \<open>chat\<close>\<close>

text \<open>
  The request body (\<open>ChatRequest\<close>). An entry of \<open>history\<close> is a dict; its values are
  taken to be text.
\<close>

record chat_request =
  request_session_id :: string
  user_message :: string
  history :: "(string \<times> string) list list option"

text \<open>Python: \<open>f"{msg.get(key)}"\<close>, which prints \<open>None\<close> for a missing key.\<close>

definition format_get :: "(string \<times> string) list \<Rightarrow> string \<Rightarrow> string" where
  "format_get msg key = (case map_of msg key of None \<Rightarrow> ''None'' | Some v \<Rightarrow> v)"

definition history_line :: "(string \<times> string) list \<Rightarrow> string" where
  "history_line msg = format_get msg ''role'' @ '': '' @ format_get msg ''content''"

text \<open>Line 339: the last ten entries of the request's history, empty when there is none.\<close>

definition history_text :: "chat_request \<Rightarrow> string" where
  "history_text request =
     (case history request of
        None \<Rightarrow> []
      | Some h \<Rightarrow> if h \<noteq> [] then join ''\<newline>'' (map history_line (py_last 10 h)) else [])"

definition chat_context :: "string \<Rightarrow> string \<Rightarrow> string" where
  "chat_context car_inventory kb =
     ''You are an expert customer support assistant for a car dealership in '' @
     ''Pakistan.\<newline>'' @
     ''\<newline>'' @
     ''AVAILABLE INVENTORY:\<newline>'' @
     car_inventory @
     ''\<newline>'' @
     ''\<newline>'' @
     ''SERVICES & POLICIES:\<newline>'' @
     kb @
     ''\<newline>'' @
     ''\<newline>'' @
     ''YOUR ROLE:\<newline>'' @
     ''- Help customers find the right car based on their needs and budget\<newline>'' @
     ''- Answer questions about financing, warranties, services, and '' @
     ''policies\<newline>'' @
     ''- Guide customers to book test drives or schedule service '' @
     ''appointments\<newline>'' @
     ''- Be friendly, professional, and helpful\<newline>'' @
     ''- Use PKR currency format\<newline>'' @
     ''\<newline>'' @
     ''IMPORTANT:\<newline>'' @
     ''- Keep responses concise but informative\<newline>'' @
     ''- If customer shows interest, encourage them to take action''"

text \<open>Lines 289 to 350: the two inventory queries, the knowledge-base match, the prompt.\<close>

definition chat_prompt :: "database \<Rightarrow> chat_request \<Rightarrow> string" where
  "chat_prompt db request =
     (let kb_matches = search_knowledge_base (user_message request);
          matching = search_cars db (user_message request);
          all_cars = snapshot db 10;
          car_details = (if matching \<noteq> [] then car_details_text matching else []);
          car_inventory = join ''\<newline>'' (map inventory_line all_cars)
      in chat_context car_inventory kb_info @
         ''\<newline>'' @
         ''\<newline>'' @
         additional_context kb_matches car_details @
         ''\<newline>'' @
         ''\<newline>'' @
         ''CONVERSATION HISTORY:\<newline>'' @
         history_text request @
         ''\<newline>'' @
         ''\<newline>'' @
         ''CUSTOMER QUERY: '' @
         user_message request @
         ''\<newline>'' @
         ''\<newline>'' @
         ''Provide a helpful, natural response.'')"

text \<open>\<open>not GEMINI_API_KEY\<close> holds for an unset key and for an empty one.\<close>

definition configured :: "string option \<Rightarrow> bool" where
  "configured api_key = (case api_key of None \<Rightarrow> False | Some k \<Rightarrow> k \<noteq> [])"

datatype http_error = HTTPException nat string

text \<open>
  What a call of the handler leaves behind: the store, the prompts posted to the
  generation API (in order), and the handler's answer.
\<close>

record chat_result =
  store_after :: database
  posted :: "string list"
  response :: "http_error + string"

text \<open>
  \<open>chat\<close> (\<open>POST /chat\<close>). The handler reads the store and never writes it. The call
  of the generation API is the function \<open>transport\<close> of the posted prompt. Any exception
  that leaves the body is turned into the error 500 by the outer \<open>except\<close>.
\<close>

definition chat :: "string option \<Rightarrow> (string \<Rightarrow> http_result) \<Rightarrow> database \<Rightarrow> chat_request \<Rightarrow> chat_result" where
  "chat api_key transport db request =
     (let full_prompt = chat_prompt db request
      in if \<not> configured api_key then
           \<lparr>store_after = db, posted = [], response = Inr not_configured_message\<rparr>
         else
           (case suggest_action (gemini_response_text (transport full_prompt)) of
              Inl e \<Rightarrow>
                \<lparr>store_after = db, posted = [full_prompt],
                  response = Inl (HTTPException 500 ''Internal server error'')\<rparr>
            | Inr response_text \<Rightarrow>
                \<lparr>store_after = db, posted = [full_prompt], response = Inr response_text\<rparr>))"

subsection \<open>The frontend's \<open>ask_gemini\<close> and chat turn\<close>

definition get_car_details :: "database \<Rightarrow> string \<Rightarrow> string option" where
  "get_car_details db query =
     (let matching = search_cars db query
      in if matching \<noteq> [] then Some (car_details_text matching) else None)"

definition ask_gemini_context :: "string \<Rightarrow> string \<Rightarrow> string" where
  "ask_gemini_context car_list kb =
     ''You are an expert customer support assistant for a car dealership in '' @
     ''Pakistan.\<newline>'' @
     ''\<newline>'' @
     ''AVAILABLE INVENTORY:\<newline>'' @
     car_list @
     ''\<newline>'' @
     ''\<newline>'' @
     ''SERVICES & POLICIES:\<newline>'' @
     kb @
     ''\<newline>'' @
     ''\<newline>'' @
     ''YOUR ROLE:\<newline>'' @
     ''- Help customers find the right car based on their needs and budget\<newline>'' @
     ''- Answer questions about financing, warranties, services, and '' @
     ''policies\<newline>'' @
     ''- Guide customers to book test drives or schedule service '' @
     ''appointments\<newline>'' @
     ''- Capture lead information when customers show interest\<newline>'' @
     ''- Be friendly, professional, and helpful\<newline>'' @
     ''- Use PKR currency format\<newline>'' @
     ''\<newline>'' @
     ''IMPORTANT:\<newline>'' @
     ''- If customer asks about a specific car, provide detailed information\<newline>'' @
     ''- If customer shows interest, encourage them to fill the lead form or '' @
     ''book a test drive\<newline>'' @
     ''- Keep responses concise but informative''"

definition ask_gemini_prompt :: "database \<Rightarrow> string \<Rightarrow> string \<Rightarrow> string" where
  "ask_gemini_prompt db user_query conversation_history =
     (let car_list = join ''\<newline>'' (map inventory_line (take 10 (get_all_cars db)));
          kb_matches = search_knowledge_base user_query;
          car_details = get_car_details db user_query
      in ask_gemini_context car_list kb_info @
         ''\<newline>'' @
         ''\<newline>'' @
         additional_context kb_matches (or_empty car_details) @
         ''\<newline>'' @
         ''\<newline>'' @
         ''CONVERSATION HISTORY:\<newline>'' @
         conversation_history @
         ''\<newline>'' @
         ''\<newline>'' @
         ''CUSTOMER QUERY: '' @
         user_query @
         ''\<newline>'' @
         ''\<newline>'' @
         ''Provide a helpful, natural response. If you mentioned cars or '' @
         ''services, encourage the customer to take the next step (book test '' @
         ''drive, fill lead form, etc.)'')"

text \<open>
  \<open>ask_gemini\<close>: the prompts it posts and the text it returns. Every exception of the
  \<open>try\<close> is caught and printed into the returned text.
\<close>

definition ask_gemini ::
  "string option \<Rightarrow> (string \<Rightarrow> http_result) \<Rightarrow> database \<Rightarrow> string \<Rightarrow> string \<Rightarrow> string list \<times> string" where
  "ask_gemini api_key transport db user_query conversation_history =
     (if \<not> configured api_key then ([], frontend_not_configured_message)
      else
        (let full_prompt = ask_gemini_prompt db user_query conversation_history
         in (case try_ask_gemini (transport full_prompt) of
               Inl e \<Rightarrow> ([full_prompt], frontend_trouble_message @ str_exception e)
             | Inr answer \<Rightarrow> ([full_prompt], answer))))"

text \<open>
  The state of a browser session (\<open>st.session_state\<close>): the session id and the
  conversation shown, each message a role and a content.
\<close>

record ui_state =
  ui_session_id :: string
  ui_messages :: "(string \<times> string) list"

record turn_result =
  turn_store :: database
  turn_ui :: ui_state
  turn_posted :: "string list"

text \<open>Line 451: the last ten messages of the session, one \<open>role: content\<close> line each.\<close>

definition session_history :: "(string \<times> string) list \<Rightarrow> string" where
  "session_history msgs =
     join ''\<newline>'' (map (\<lambda>msg. fst msg @ '': '' @ snd msg) (py_last 10 msgs))"

text \<open>
  Lines 441 to 456, the chat input of the page: nothing happens without input;
  otherwise the user's message is appended to the session and saved, the history is
  built from the session as it then stands, \<open>ask_gemini\<close> is called, and its answer is
  appended and saved.
\<close>

definition frontend_chat_turn ::
  "string option \<Rightarrow> (string \<Rightarrow> http_result) \<Rightarrow> database \<Rightarrow> ui_state \<Rightarrow> string \<Rightarrow> turn_result" where
  "frontend_chat_turn api_key transport db ui user_input =
     (if user_input = [] then \<lparr>turn_store = db, turn_ui = ui, turn_posted = []\<rparr>
      else
        (let ui1 = ui\<lparr>ui_messages := ui_messages ui @ [(''user'', user_input)]\<rparr>;
             db1 = save_message db (ui_session_id ui) ''user'' user_input;
             history_lines = session_history (ui_messages ui1);
             answer = ask_gemini api_key transport db1 user_input history_lines;
             ui2 = ui1\<lparr>ui_messages := ui_messages ui1 @ [(''assistant'', snd answer)]\<rparr>;
             db2 = save_message db1 (ui_session_id ui) ''assistant'' (snd answer)
         in \<lparr>turn_store = db2, turn_ui = ui2, turn_posted = fst answer\<rparr>))"

section \<open>The spec's reading of a response\<close>










section \<open>Inputs of the worked examples\<close>

text \<open>A response with status 200 and a JSON body.\<close>

definition ok_response :: "json \<Rightarrow> http_result" where
  "ok_response body = Responds \<lparr>status_code = 200, status_error = [], json_body = Inr body\<rparr>"

text \<open>The smallest body that carries a generated text.\<close>

definition answer_body :: "json \<Rightarrow> json" where
  "answer_body t =
     JObj [(''candidates'', JArr [JObj [(''content'', JObj [(''parts'', JArr [JObj [(''text'', t)]])])]])]"

text \<open>A first request of a session, and a fresh browser session.\<close>

definition sample_request :: chat_request where
  "sample_request = \<lparr>request_session_id = ''s1'', user_message = ''hi'', history = Some []\<rparr>"

definition fresh_session :: ui_state where
  "fresh_session = \<lparr>ui_session_id = ''s1'', ui_messages = []\<rparr>"

text \<open>A browser session that already shows ten messages.\<close>

definition long_session :: ui_state where
  "long_session =
     \<lparr>ui_session_id = ''s1'',
      ui_messages =
        [(''assistant'', ''m0''), (''user'', ''m1''), (''assistant'', ''m2''), (''user'', ''m3''),
         (''assistant'', ''m4''), (''user'', ''m5''), (''assistant'', ''m6''), (''user'', ''m7''),
         (''assistant'', ''m8''), (''user'', ''m9'')]\<rparr>"
section \<open>Facts about text\<close>



section \<open>Knowledge-base matching\<close>






section \<open>The LIKE operator\<close>

lemma like_percent_Cons: "sqlite_like ps s \<Longrightarrow> sqlite_like (CHR ''%'' # ps) s"
  by (cases s) simp_all

lemma skip_utf8_shorter: "s \<noteq> [] \<Longrightarrow> length (skip_utf8 s) < length s"
  by (cases s) (simp_all add: length_dropWhile_le less_Suc_eq_le)



lemma like_percent_all: "sqlite_like ''%'' s"
proof (induction "length s" arbitrary: s rule: less_induct)
  case less
  show ?case
  proof (cases s)
    case Nil
    then show ?thesis by simp
  next
    case (Cons c cs)
    have "length (skip_utf8 s) < length s" using Cons skip_utf8_shorter by blast
    then have "sqlite_like ''%'' (skip_utf8 s)" by (rule less)
    then show ?thesis using Cons by simp
  qed
qed







section \<open>Inventory claims\<close>

lemma init_db_cars:
  "cars (init_db empty_db) =
    [\<lparr>car_id = 1, make' = ''Toyota'', model = ''Corolla'', year = 2020, price = 3500000,
      mileage = ''45,000 km'', fuel_type = ''Petrol'', transmission = ''Automatic'',
      features = ''ABS, Airbags, Power Steering, AC, Alloy Rims'', status = ''available''\<rparr>,
     \<lparr>car_id = 2, make' = ''Honda'', model = ''Civic'', year = 2019, price = 3200000,
      mileage = ''52,000 km'', fuel_type = ''Petrol'', transmission = ''CVT'',
      features = ''Cruise Control, Sunroof, Leather Seats, Navigation'', status = ''available''\<rparr>,
     \<lparr>car_id = 3, make' = ''Suzuki'', model = ''Alto'', year = 2021, price = 1800000,
      mileage = ''25,000 km'', fuel_type = ''Petrol'', transmission = ''Manual'',
      features = ''AC, Power Windows, Central Lock'', status = ''available''\<rparr>,
     \<lparr>car_id = 4, make' = ''Honda'', model = ''City'', year = 2020, price = 2800000,
      mileage = ''38,000 km'', fuel_type = ''Petrol'', transmission = ''Automatic'',
      features = ''ABS, Airbags, Alloy Rims, Multimedia'', status = ''available''\<rparr>,
     \<lparr>car_id = 5, make' = ''Toyota'', model = ''Yaris'', year = 2022, price = 3900000,
      mileage = ''15,000 km'', fuel_type = ''Petrol'', transmission = ''CVT'',
      features = ''Smart Entry, Push Start, Reverse Camera'', status = ''available''\<rparr>]"
  by (simp add: init_db_def empty_db_def sample_cars_def next_id_def)

text \<open>
  Claim C10. For the empty query the pattern is \<open>%%\<close>, which matches every text: the
  search returns every car whose status is \<open>available\<close>, in store order. The backend's
  \<open>chat\<close> runs the same query on a blank message.
\<close>

theorem search_cars_empty_query:
  "search_cars db [] = filter (\<lambda>c. status c = ''available'') (cars db)"
proof -
  have "sqlite_like ''%%'' s" for s
    using like_percent_Cons [OF like_percent_all] by simp
  then show ?thesis by (simp add: search_cars_def)
qed

text \<open>On the seeded store the blank search returns all five cars.\<close>

theorem search_cars_empty_query_witness:
  "map model (search_cars (init_db empty_db) []) = [''Corolla'', ''Civic'', ''Alto'', ''City'', ''Yaris'']"
  using search_cars_empty_query [of "init_db empty_db"] by (simp add: init_db_cars)

text \<open>
  The snapshot for any limit: at most \<open>limit\<close> cars, all available, years descending,
  and for each year the returned cars of that year are the first ones, in store order,
  of the available cars of that year.
\<close>

lemma snapshot_limit:
  "length (snapshot db n) \<le> n
   \<and> list_all (\<lambda>c. status c = ''available'') (snapshot db n)
   \<and> sorted_wrt (\<lambda>a b. year b \<le> year a) (snapshot db n)
   \<and> prefix (filter (\<lambda>c. year c = y) (snapshot db n))
        (filter (\<lambda>c. year c = y) (filter (\<lambda>c. status c = ''available'') (cars db)))"
proof -
  let ?av = "filter (\<lambda>c. status c = ''available'') (cars db)"
  have len: "length (snapshot db n) \<le> n"
    by (simp add: snapshot_def)
  have "set (snapshot db n) \<subseteq> set ?av"
    unfolding snapshot_def get_all_cars_def order_by_year_desc_def
    by (metis set_sort set_take_subset)
  then have av: "list_all (\<lambda>c. status c = ''available'') (snapshot db n)"
    by (auto simp: list_all_iff)
  have "sorted (map (\<lambda>c. - year c) (get_all_cars db))"
    by (simp add: get_all_cars_def order_by_year_desc_def)
  then have "sorted_wrt (\<lambda>a b. year b \<le> year a) (get_all_cars db)"
    by (simp add: sorted_map)
  then have srt: "sorted_wrt (\<lambda>a b. year b \<le> year a) (snapshot db n)"
    unfolding snapshot_def by (rule sorted_wrt_take)
  have "filter (\<lambda>c. - year c = - y) (get_all_cars db) = filter (\<lambda>c. - year c = - y) ?av"
    unfolding get_all_cars_def order_by_year_desc_def by (rule sort_key_stable)
  then have stable: "filter (\<lambda>c. year c = y) (get_all_cars db) = filter (\<lambda>c. year c = y) ?av"
    by simp
  have "prefix (filter (\<lambda>c. year c = y) (snapshot db n)) (filter (\<lambda>c. year c = y) (get_all_cars db))"
    unfolding snapshot_def by (rule filter_mono_prefix) (rule take_is_prefix)
  with stable have pre: "prefix (filter (\<lambda>c. year c = y) (snapshot db n)) (filter (\<lambda>c. year c = y) ?av)"
    by simp
  from len av srt pre show ?thesis by blast
qed

text \<open>
  Claim C9. \<open>snapshot(10)\<close> returns at most 10 cars, all with status \<open>available\<close>,
  sorted by year in descending order; among cars of the same year the returned order
  is the store's insertion order (the returned cars of a year are a prefix of the
  available cars of that year as the store holds them).
\<close>

theorem snapshot_ten:
  "length (snapshot db 10) \<le> 10
   \<and> list_all (\<lambda>c. status c = ''available'') (snapshot db 10)
   \<and> sorted_wrt (\<lambda>a b. year b \<le> year a) (snapshot db 10)
   \<and> prefix (filter (\<lambda>c. year c = y) (snapshot db 10))
        (filter (\<lambda>c. year c = y) (filter (\<lambda>c. status c = ''available'') (cars db)))"
  by (rule snapshot_limit)

text \<open>
  On the seeded store: Yaris (2022), Alto (2021), then the two cars of 2020 in the
  order of their insertion (Corolla, row 1, before City, row 4), then Civic (2019).
\<close>

theorem snapshot_ten_witness:
  "map car_id (snapshot (init_db empty_db) 10) = [5, 3, 1, 4, 2]
   \<and> map car_id (filter (\<lambda>c. year c = 2020) (snapshot (init_db empty_db) 10)) = [1, 4]
   \<and> sorted_wrt (\<lambda>a b. year b \<le> year a) (snapshot (init_db empty_db) 10)"
  using snapshot_ten [of "init_db empty_db" 2020]
  by (simp add: snapshot_def get_all_cars_def order_by_year_desc_def init_db_cars)




section \<open>Writes\<close>







section \<open>Facts: the generation API\<close>

subsection \<open>Reading the response\<close>










lemma frontend_failure:
  "(r = Raises m \<longrightarrow> try_ask_gemini r = Inl (RequestError m))
   \<and> (r = Responds res \<and> 400 \<le> status_code res \<and> status_code res < 600 \<longrightarrow>
        try_ask_gemini r = Inl (RequestError (status_error res)))
   \<and> (r = Responds res \<and> \<not> (400 \<le> status_code res \<and> status_code res < 600)
          \<and> json_body res = Inl m \<longrightarrow> try_ask_gemini r = Inl (RequestError m))"
  by (auto simp: try_ask_gemini_def raise_for_status_def res_json_def)







subsection \<open>The two callers with a configured key\<close>

lemma chat_configured:
  "configured api_key \<Longrightarrow>
   chat api_key transport db request =
     (case suggest_action (gemini_response_text (transport (chat_prompt db request))) of
        Inl e \<Rightarrow>
          \<lparr>store_after = db, posted = [chat_prompt db request],
            response = Inl (HTTPException 500 ''Internal server error'')\<rparr>
      | Inr response_text \<Rightarrow>
          \<lparr>store_after = db, posted = [chat_prompt db request], response = Inr response_text\<rparr>)"
  by (simp add: chat_def Let_def)

lemma ask_gemini_configured:
  "configured api_key \<Longrightarrow>
   ask_gemini api_key transport db q h =
     (case try_ask_gemini (transport (ask_gemini_prompt db q h)) of
        Inl e \<Rightarrow> ([ask_gemini_prompt db q h], frontend_trouble_message @ str_exception e)
      | Inr answer \<Rightarrow> ([ask_gemini_prompt db q h], answer))"
  by (simp add: ask_gemini_def Let_def)


lemma key_configured: "configured (Some ''key'')"
  by (simp add: configured_def)


subsection \<open>Failure of the call\<close>




text \<open>
  Outside the amended claim: a text field that holds a number is truthy, so \<open>chat\<close>
  keeps it, and \<open>response_text.lower()\<close> then raises outside the inner \<open>try\<close>; the
  endpoint answers with status 500.
\<close>

lemma chat_nonstring_text_error:
  "response (chat (Some ''key'') (\<lambda>p. ok_response (answer_body (JNum 5))) (init_db empty_db)
               sample_request)
     = Inl (HTTPException 500 ''Internal server error'')"
proof -
  have "gemini_response_text (ok_response (answer_body (JNum 5))) = JNum 5"
    by (simp add: gemini_response_text_def try_gemini_def ok_response_def answer_body_def
          raise_for_status_def res_json_def extract_response_text_def py_or_def)
  then show ?thesis
    by (simp add: chat_configured [OF key_configured] suggest_action_def)
qed

subsection \<open>No key\<close>




subsection \<open>The suggestion line\<close>




section \<open>Facts: the chat turn\<close>

subsection \<open>What a turn stores\<close>





subsection \<open>The history section of the prompt\<close>

text \<open>
  The endpoint renders the last ten entries of the history the client sent, oldest
  first, and keeps the query apart from it.
\<close>

lemma py_last_snoc: "py_last 10 (xs @ [x]) = py_last 9 xs @ [x]"
  by (simp add: py_last_def)

lemma backend_history_window:
  "history request = Some h \<Longrightarrow>
     history_text request = join ''\<newline>'' (map history_line (py_last 10 h))
     \<and> length (py_last 10 h) = min (length h) 10"
  by (auto simp: history_text_def py_last_def)

text \<open>
  The page appends the user's text to the session before it takes the last ten
  messages: the history it hands to \<open>ask_gemini\<close> is the last nine earlier messages
  followed by the current query.
\<close>

lemma frontend_history_window:
  "session_history (msgs @ [(''user'', u)]) =
     join ''\<newline>'' (map (\<lambda>msg. fst msg @ '': '' @ snd msg) (py_last 9 msgs) @ [''user: '' @ u])"
  by (simp add: session_history_def py_last_snoc)

text \<open>
  Claim C3 fails on the page's chat turn. On a session without messages and the input
  \<open>hi\<close>, the history section of the posted prompt is \<open>user: hi\<close>: the current query,
  where the claim has no line at all. On a session of ten messages the section holds the
  last nine of them and then the current query, where the claim has all ten.
\<close>

theorem frontend_history_holds_query:
  "turn_posted (frontend_chat_turn (Some ''key'') (\<lambda>p. Raises []) empty_db fresh_session ''hi'')
     = [ask_gemini_prompt (save_message empty_db ''s1'' ''user'' ''hi'') ''hi'' ''user: hi'']
   \<and> turn_posted (frontend_chat_turn (Some ''key'') (\<lambda>p. Raises []) empty_db long_session ''hi'')
     = [ask_gemini_prompt (save_message empty_db ''s1'' ''user'' ''hi'') ''hi''
          (''user: m1\<newline>assistant: m2\<newline>user: m3\<newline>assistant: m4\<newline>user: m5\<newline>'' @
           ''assistant: m6\<newline>user: m7\<newline>assistant: m8\<newline>user: m9\<newline>user: hi'')]"
  by (simp add: frontend_chat_turn_def Let_def ask_gemini_configured [OF key_configured]
        fresh_session_def long_session_def session_history_def py_last_def
      split: sum.splits)

end
